theory Spec2Isabelle
  imports Complex_Main
begin

section \<open>Documents and the document store\<close>

text \<open>
  A stored document is a dictionary from field names to values. The entities handled by
  \<open>main.py\<close> (leads, deals, tasks, activities) have scalar fields only, so the values
  are the scalar BSON values. A number is kept as the rational it denotes; the store
  compares numbers by value, whatever their BSON width. An object identifier is kept as
  its 24 lower-case hexadecimal digits, a date as its text.
\<close>

datatype "value" = VNull | VBool bool | VNum rat | VStr string | VOid string | VDate string

type_synonym doc = "string \<rightharpoonup> value"

text \<open>
  Modelled from the spec: \<open>database.py\<close> (the names \<open>db\<close>, \<open>create_document\<close> and
  \<open>get_documents\<close> that \<open>main.py\<close> imports) is not among the sources. The store holds,
  for each collection name, its documents in the store's natural order, and the supply
  from which the next identifier is drawn. \<open>db\<close> is \<open>None\<close> when no database is
  configured.
\<close>

record store =
  collections :: "string \<Rightarrow> doc list"
  next_oid :: nat

datatype error =
    HTTPException nat string
  | ValidationError
  | StoreUnavailable
  | TypeError
  | RegexNotModelled

subsection \<open>Filters\<close>

text \<open>
  The filter documents that \<open>main.py\<close> builds: a dictionary whose entries are either
  \<open>field: value\<close>, \<open>field: {"$in": [...]}\<close>, \<open>field: {"$regex": q, "$options": "i"}\<close>,
  or \<open>"$or": [...]\<close> over one-field dictionaries. The entries of a dictionary hold
  together.
\<close>

datatype cond = Eq "value" | In "value list" | Regex string

datatype clause = Field string cond | Or "(string \<times> cond) list"

type_synonym query = "clause list"

subsection \<open>Case-insensitive regular expressions\<close>

text \<open>
  The store reads the text of a \<open>$regex\<close> as a regular expression. The model covers the
  patterns made of ordinary characters and of the dot, which stands for any character
  but the line feed; with option \<open>i\<close> the ASCII letters match in either case. A pattern
  that uses any other special character is outside the model (\<open>regex_compile\<close> gives
  \<open>None\<close>).
\<close>

datatype atom = Lit char | AnyChar

definition regex_special :: "char \<Rightarrow> bool" where
  "regex_special c = (c = CHR 0x5C \<or> List.member ''^$.[]|()?*+{}'' c)"

fun regex_compile :: "string \<Rightarrow> atom list option" where
  "regex_compile [] = Some []"
| "regex_compile (c # cs) =
     (if c = CHR ''.'' then map_option (Cons AnyChar) (regex_compile cs)
      else if regex_special c then None
      else map_option (Cons (Lit c)) (regex_compile cs))"

definition lower :: "char \<Rightarrow> char" where
  "lower c = (let n = (of_char c :: nat) in if 65 \<le> n \<and> n \<le> 90 then char_of (n + 32) else c)"

fun atom_match :: "atom \<Rightarrow> char \<Rightarrow> bool" where
  "atom_match (Lit l) c = (lower l = lower c)"
| "atom_match AnyChar c = (c \<noteq> CHR 0x0A)"

fun match_here :: "atom list \<Rightarrow> string \<Rightarrow> bool" where
  "match_here [] s = True"
| "match_here (a # as) [] = False"
| "match_here (a # as) (c # cs) = (atom_match a c \<and> match_here as cs)"

fun regex_search :: "atom list \<Rightarrow> string \<Rightarrow> bool" where
  "regex_search as [] = match_here as []"
| "regex_search as (c # cs) = (match_here as (c # cs) \<or> regex_search as cs)"

subsection \<open>Matching a document\<close>

fun cond_holds :: "cond \<Rightarrow> value option \<Rightarrow> bool" where
  "cond_holds (Eq v) fv = (fv = Some v)"
| "cond_holds (In vs) fv = (case fv of None \<Rightarrow> False | Some v \<Rightarrow> List.member vs v)"
| "cond_holds (Regex p) fv =
     (case (regex_compile p, fv) of
        (Some as, Some (VStr s)) \<Rightarrow> regex_search as s
      | _ \<Rightarrow> False)"

fun clause_holds :: "doc \<Rightarrow> clause \<Rightarrow> bool" where
  "clause_holds d (Field k c) = cond_holds c (d k)"
| "clause_holds d (Or alts) = list_ex (\<lambda>(k, c). cond_holds c (d k)) alts"

definition matches :: "query \<Rightarrow> doc \<Rightarrow> bool" where
  "matches q d = list_all (clause_holds d) q"

fun cond_modelled :: "cond \<Rightarrow> bool" where
  "cond_modelled (Regex p) = (regex_compile p \<noteq> None)"
| "cond_modelled _ = True"

fun clause_modelled :: "clause \<Rightarrow> bool" where
  "clause_modelled (Field k c) = cond_modelled c"
| "clause_modelled (Or alts) = list_all (\<lambda>(k, c). cond_modelled c) alts"

subsection \<open>The collection operations that the handlers call\<close>

definition find :: "store \<Rightarrow> string \<Rightarrow> query \<Rightarrow> doc list" where
  "find st coll q = filter (matches q) (collections st coll)"




section \<open>Python numbers\<close>














section \<open>The dashboard\<close>






section \<open>Identifiers\<close>




section \<open>The gateway\<close>

text \<open>
  Modelled from the spec: \<open>create_document\<close> and \<open>get_documents\<close> of the absent
  \<open>database.py\<close>. Section 4.2 of the specification: insert serialises the entity, assigns
  it a new identifier, persists it and returns the identifier as a string; find returns
  up to \<open>limit\<close> matching documents with identifiers rendered as strings; every operation
  fails with \<open>StoreUnavailable\<close> when no store is configured. The new identifier is the
  store's counter written with 24 hexadecimal digits. A filter whose regular expression
  is outside the modelled patterns is answered with \<open>RegexNotModelled\<close>.
\<close>

fun hex_str :: "nat \<Rightarrow> nat \<Rightarrow> string" where
  "hex_str 0 n = []"
| "hex_str (Suc w) n = hex_str w (n div 16) @ [''0123456789abcdef'' ! (n mod 16)]"

type_synonym response = "(string \<times> value) list"

definition create_document :: "store option \<Rightarrow> string \<Rightarrow> doc \<Rightarrow> error + (string \<times> store)" where
  "create_document db collection_name data =
     (case db of
        None \<Rightarrow> Inl StoreUnavailable
      | Some st \<Rightarrow>
          let oid = hex_str 24 (next_oid st)
          in Inr (oid,
                  st\<lparr>collections := (collections st)
                        (collection_name := collections st collection_name @ [data(''_id'' \<mapsto> VOid oid)]),
                     next_oid := Suc (next_oid st)\<rparr>))"

definition render_id :: "doc \<Rightarrow> doc" where
  "render_id d = (case d ''_id'' of Some (VOid h) \<Rightarrow> d(''_id'' \<mapsto> VStr h) | _ \<Rightarrow> d)"

definition get_documents :: "store option \<Rightarrow> string \<Rightarrow> query \<Rightarrow> int \<Rightarrow> error + doc list" where
  "get_documents db collection_name filter_dict limit =
     (case db of
        None \<Rightarrow> Inl StoreUnavailable
      | Some st \<Rightarrow>
          if \<not> list_all clause_modelled filter_dict then Inl RegexNotModelled
          else Inr (map render_id (take (nat limit) (find st collection_name filter_dict))))"



section \<open>Entity schemas\<close>

text \<open>
  The request body of a create operation, after JSON decoding: each field is present with
  a value of the field's JSON type, or absent (\<open>None\<close>). The syntax checks that the
  \<open>pydantic\<close> library makes on an e-mail address and on a date are parameters.
\<close>

record checks =
  email_ok :: "string \<Rightarrow> bool"
  datetime_ok :: "string \<Rightarrow> bool"

definition opt_ok :: "('a \<Rightarrow> bool) \<Rightarrow> 'a option \<Rightarrow> bool" where
  "opt_ok P x = (case x of None \<Rightarrow> True | Some v \<Rightarrow> P v)"

definition in_range :: "int \<Rightarrow> int \<Rightarrow> int \<Rightarrow> bool" where
  "in_range lo hi n = (lo \<le> n \<and> n \<le> hi)"

definition literal :: "string list \<Rightarrow> string \<Rightarrow> bool" where
  "literal allowed s = List.member allowed s"

definition opt_str :: "string option \<Rightarrow> value" where
  "opt_str x = (case x of None \<Rightarrow> VNull | Some s \<Rightarrow> VStr s)"

definition opt_int :: "int option \<Rightarrow> value" where
  "opt_int x = (case x of None \<Rightarrow> VNull | Some n \<Rightarrow> VNum (of_int n))"

definition opt_date :: "string option \<Rightarrow> value" where
  "opt_date x = (case x of None \<Rightarrow> VNull | Some s \<Rightarrow> VDate s)"

definition default :: "'a \<Rightarrow> 'a option \<Rightarrow> 'a" where
  "default d x = (case x of None \<Rightarrow> d | Some v \<Rightarrow> v)"

record lead_body =
  lead_name :: "string option"
  lead_email :: "string option"
  lead_phone :: "string option"
  lead_status :: "string option"
  lead_source :: "string option"
  lead_owner_id :: "string option"
  lead_score :: "int option"
  lead_notes :: "string option"

definition Lead :: "checks \<Rightarrow> lead_body \<Rightarrow> error + doc" where
  "Lead chk b =
     (if lead_name b \<noteq> None
         \<and> opt_ok (email_ok chk) (lead_email b)
         \<and> opt_ok (literal [''new'', ''contacted'', ''qualified'', ''lost'']) (lead_status b)
         \<and> opt_ok (in_range 0 100) (lead_score b)
      then Inr [''name'' \<mapsto> opt_str (lead_name b),
                ''email'' \<mapsto> opt_str (lead_email b),
                ''phone'' \<mapsto> opt_str (lead_phone b),
                ''status'' \<mapsto> VStr (default ''new'' (lead_status b)),
                ''source'' \<mapsto> opt_str (lead_source b),
                ''owner_id'' \<mapsto> opt_str (lead_owner_id b),
                ''score'' \<mapsto> opt_int (lead_score b),
                ''notes'' \<mapsto> opt_str (lead_notes b)]
      else Inl ValidationError)"

record deal_body =
  deal_title :: "string option"
  deal_account_id :: "string option"
  deal_contact_id :: "string option"
  deal_value :: "rat option"
  deal_close_date :: "string option"
  deal_stage :: "string option"
  deal_probability :: "int option"
  deal_lost_reason :: "string option"
  deal_owner_id :: "string option"

definition Deal :: "checks \<Rightarrow> deal_body \<Rightarrow> error + doc" where
  "Deal chk b =
     (if deal_title b \<noteq> None
         \<and> opt_ok (datetime_ok chk) (deal_close_date b)
         \<and> opt_ok (in_range 0 100) (deal_probability b)
      then Inr [''title'' \<mapsto> opt_str (deal_title b),
                ''account_id'' \<mapsto> opt_str (deal_account_id b),
                ''contact_id'' \<mapsto> opt_str (deal_contact_id b),
                ''value'' \<mapsto> VNum (default 0 (deal_value b)),
                ''close_date'' \<mapsto> opt_date (deal_close_date b),
                ''stage'' \<mapsto> VStr (default ''prospecting'' (deal_stage b)),
                ''probability'' \<mapsto> opt_int (deal_probability b),
                ''lost_reason'' \<mapsto> opt_str (deal_lost_reason b),
                ''owner_id'' \<mapsto> opt_str (deal_owner_id b)]
      else Inl ValidationError)"

record task_body =
  task_type :: "string option"
  task_title :: "string option"
  task_due_date :: "string option"
  task_priority :: "string option"
  task_owner_id :: "string option"
  task_related_type :: "string option"
  task_related_id :: "string option"
  task_notes :: "string option"
  task_completed :: "bool option"

definition Task :: "checks \<Rightarrow> task_body \<Rightarrow> error + doc" where
  "Task chk b =
     (if opt_ok (literal [''call'', ''meeting'', ''follow-up'', ''email'']) (task_type b)
         \<and> task_title b \<noteq> None
         \<and> opt_ok (datetime_ok chk) (task_due_date b)
         \<and> opt_ok (literal [''low'', ''medium'', ''high'']) (task_priority b)
         \<and> opt_ok (literal [''lead'', ''contact'', ''deal'', ''account'']) (task_related_type b)
      then Inr [''type'' \<mapsto> VStr (default ''follow-up'' (task_type b)),
                ''title'' \<mapsto> opt_str (task_title b),
                ''due_date'' \<mapsto> opt_date (task_due_date b),
                ''priority'' \<mapsto> VStr (default ''medium'' (task_priority b)),
                ''owner_id'' \<mapsto> opt_str (task_owner_id b),
                ''related_type'' \<mapsto> opt_str (task_related_type b),
                ''related_id'' \<mapsto> opt_str (task_related_id b),
                ''notes'' \<mapsto> opt_str (task_notes b),
                ''completed'' \<mapsto> VBool (default False (task_completed b))]
      else Inl ValidationError)"

record activity_body =
  activity_subject :: "string option"
  activity_type :: "string option"
  activity_user_id :: "string option"
  activity_related_type :: "string option"
  activity_related_id :: "string option"
  activity_details :: "string option"

definition Activity :: "checks \<Rightarrow> activity_body \<Rightarrow> error + doc" where
  "Activity chk b =
     (if activity_subject b \<noteq> None
         \<and> opt_ok (literal [''note'', ''call'', ''email'', ''meeting'', ''status-change'']) (activity_type b)
         \<and> opt_ok (literal [''lead'', ''contact'', ''deal'', ''account'']) (activity_related_type b)
      then Inr [''subject'' \<mapsto> opt_str (activity_subject b),
                ''type'' \<mapsto> VStr (default ''note'' (activity_type b)),
                ''user_id'' \<mapsto> opt_str (activity_user_id b),
                ''related_type'' \<mapsto> opt_str (activity_related_type b),
                ''related_id'' \<mapsto> opt_str (activity_related_id b),
                ''details'' \<mapsto> opt_str (activity_details b)]
      else Inl ValidationError)"

section \<open>Request handlers\<close>

text \<open>
  The handlers of \<open>main.py\<close>. The global \<open>db\<close> is the first argument, and a handler that
  writes returns the store it leaves. A failed validation of the body is the framework's
  \<open>ValidationError\<close>, raised before the handler's body runs.
\<close>

subsection \<open>Create\<close>

definition create_lead :: "checks \<Rightarrow> store option \<Rightarrow> lead_body \<Rightarrow> error + (response \<times> store)" where
  "create_lead chk db body =
     (case Lead chk body of
        Inl e \<Rightarrow> Inl e
      | Inr payload \<Rightarrow>
          (case create_document db ''lead'' payload of
             Inl e \<Rightarrow> Inl e
           | Inr (lead_id, st') \<Rightarrow> Inr ([(''_id'', VStr lead_id)], st')))"

definition create_deal :: "checks \<Rightarrow> store option \<Rightarrow> deal_body \<Rightarrow> error + (response \<times> store)" where
  "create_deal chk db body =
     (case Deal chk body of
        Inl e \<Rightarrow> Inl e
      | Inr payload \<Rightarrow>
          (case create_document db ''deal'' payload of
             Inl e \<Rightarrow> Inl e
           | Inr (deal_id, st') \<Rightarrow> Inr ([(''_id'', VStr deal_id)], st')))"

definition create_task :: "checks \<Rightarrow> store option \<Rightarrow> task_body \<Rightarrow> error + (response \<times> store)" where
  "create_task chk db body =
     (case Task chk body of
        Inl e \<Rightarrow> Inl e
      | Inr payload \<Rightarrow>
          (case create_document db ''task'' payload of
             Inl e \<Rightarrow> Inl e
           | Inr (task_id, st') \<Rightarrow> Inr ([(''_id'', VStr task_id)], st')))"

definition create_activity ::
  "checks \<Rightarrow> store option \<Rightarrow> activity_body \<Rightarrow> error + (response \<times> store)" where
  "create_activity chk db body =
     (case Activity chk body of
        Inl e \<Rightarrow> Inl e
      | Inr payload \<Rightarrow>
          (case create_document db ''activity'' payload of
             Inl e \<Rightarrow> Inl e
           | Inr (act_id, st') \<Rightarrow> Inr ([(''_id'', VStr act_id)], st')))"

subsection \<open>List\<close>

text \<open>
  \<open>if status:\<close> holds for a parameter that is given and is not the empty string;
  \<open>when_given\<close> adds the entry to the filter in that case only.
\<close>

definition when_given :: "string option \<Rightarrow> (string \<Rightarrow> clause) \<Rightarrow> query \<Rightarrow> query" where
  "when_given x entry query =
     (case x of None \<Rightarrow> query | Some s \<Rightarrow> if s = [] then query else query @ [entry s])"

definition list_leads ::
  "store option \<Rightarrow> string option \<Rightarrow> string option \<Rightarrow> int \<Rightarrow> error + doc list" where
  "list_leads db status q limit =
     (let query = [];
          query = when_given status (\<lambda>status. Field ''status'' (Eq (VStr status))) query;
          query = when_given q (\<lambda>q. Or [(''name'', Regex q),
                                          (''email'', Regex q),
                                          (''phone'', Regex q)]) query
      in get_documents db ''lead'' query limit)"

definition list_deals ::
  "store option \<Rightarrow> string option \<Rightarrow> string option \<Rightarrow> int \<Rightarrow> error + doc list" where
  "list_deals db stage q limit =
     (let query = [];
          query = when_given stage (\<lambda>stage. Field ''stage'' (Eq (VStr stage))) query;
          query = when_given q (\<lambda>q. Field ''title'' (Regex q)) query
      in get_documents db ''deal'' query limit)"

definition list_tasks ::
  "store option \<Rightarrow> string option \<Rightarrow> string option \<Rightarrow> int \<Rightarrow> error + doc list" where
  "list_tasks db owner_id due limit =
     (let query = [];
          query = when_given owner_id (\<lambda>owner_id. Field ''owner_id'' (Eq (VStr owner_id))) query
      in get_documents db ''task'' query limit)"

definition list_activities ::
  "store option \<Rightarrow> string option \<Rightarrow> string option \<Rightarrow> int \<Rightarrow> error + doc list" where
  "list_activities db related_type related_id limit =
     (let query = [];
          query = when_given related_type
                    (\<lambda>related_type. Field ''related_type'' (Eq (VStr related_type))) query;
          query = when_given related_id
                    (\<lambda>related_id. Field ''related_id'' (Eq (VStr related_id))) query
      in get_documents db ''activity'' query limit)"

subsection \<open>Update\<close>





section \<open>Substring search, as the specification words it\<close>


section \<open>Example data\<close>



definition empty_store :: store where
  "empty_store = \<lparr>collections = (\<lambda>_. []), next_oid = 0\<rparr>"

definition example_checks :: checks where
  "example_checks = \<lparr>email_ok = (\<lambda>s. List.member s CHR ''@''), datetime_ok = (\<lambda>s. s \<noteq> [])\<rparr>"

definition example_lead :: lead_body where
  "example_lead = \<lparr>lead_name = Some ''Ada'', lead_email = None, lead_phone = None,
     lead_status = None, lead_source = None, lead_owner_id = None, lead_score = None,
     lead_notes = None\<rparr>"


section \<open>Facts about the store operations\<close>













section \<open>Facts about binary64 rounding\<close>








section \<open>The dashboard figures\<close>







section \<open>Creating entities\<close>

lemma Lead_ok_iff:
  "(\<exists>d. Lead chk b = Inr d) \<longleftrightarrow>
     lead_name b \<noteq> None \<and> opt_ok (email_ok chk) (lead_email b)
     \<and> opt_ok (literal [''new'', ''contacted'', ''qualified'', ''lost'']) (lead_status b)
     \<and> opt_ok (in_range 0 100) (lead_score b)"
  by (simp add: Lead_def)

lemma create_lead_ok_iff:
  "(\<exists>r. create_lead chk (Some st) b = Inr r) \<longleftrightarrow> (\<exists>d. Lead chk b = Inr d)"
  by (auto simp: create_lead_def create_document_def Let_def split: sum.splits)

lemma create_document_Inr:
  "create_document (Some st) coll data = Inr (i, st') \<Longrightarrow>
     i = hex_str 24 (next_oid st)
     \<and> collections st' coll = collections st coll @ [data(''_id'' \<mapsto> VOid i)]"
  by (auto simp: create_document_def Let_def)

lemma create_document_None: "create_document None coll data = Inl StoreUnavailable"
  by (simp add: create_document_def)

lemma example_lead_response:
  "(case create_lead example_checks (Some empty_store) example_lead of
      Inr (resp, st') \<Rightarrow> resp = [(''_id'', VStr ''000000000000000000000000'')]
    | Inl e \<Rightarrow> False)"
  by code_simp

lemma example_lead_created:
  "create_lead example_checks (Some empty_store) (example_lead\<lparr>lead_score := None\<rparr>) =
     Inr (projr (create_lead example_checks (Some empty_store) (example_lead\<lparr>lead_score := None\<rparr>)))"
proof -
  have "example_lead\<lparr>lead_score := None\<rparr> = example_lead"
    by (simp add: example_lead_def)
  with example_lead_response show ?thesis by (simp split: sum.splits)
qed

text \<open>
  C2. Creating a lead whose score is 150 fails schema validation, and creating a lead whose
  score is 100, or any integer from 0 to 100, succeeds: for a store that is configured and
  a body that is valid without its score, lead creation accepts an integer score exactly
  when it lies within [0, 100], and answers a score outside with the validation error.
\<close>

theorem lead_score_bounds:
  assumes "create_lead chk (Some st) (b\<lparr>lead_score := None\<rparr>) = Inr r0"
  shows "((\<exists>r. create_lead chk (Some st) (b\<lparr>lead_score := Some n\<rparr>) = Inr r)
            \<longleftrightarrow> 0 \<le> n \<and> n \<le> 100)
       \<and> (\<not> (0 \<le> n \<and> n \<le> 100) \<longrightarrow>
            create_lead chk (Some st) (b\<lparr>lead_score := Some n\<rparr>) = Inl ValidationError)"
proof -
  from assms have ok: "\<exists>d. Lead chk (b\<lparr>lead_score := None\<rparr>) = Inr d"
    using create_lead_ok_iff by blast
  then have rest: "lead_name b \<noteq> None \<and> opt_ok (email_ok chk) (lead_email b)
     \<and> opt_ok (literal [''new'', ''contacted'', ''qualified'', ''lost'']) (lead_status b)"
    by (simp add: Lead_ok_iff)
  have a: "(\<exists>r. create_lead chk (Some st) (b\<lparr>lead_score := Some n\<rparr>) = Inr r)
             \<longleftrightarrow> 0 \<le> n \<and> n \<le> 100"
    unfolding create_lead_ok_iff Lead_ok_iff using rest by (simp add: opt_ok_def in_range_def)
  have b: "create_lead chk (Some st) (b\<lparr>lead_score := Some n\<rparr>) = Inl ValidationError"
    if "\<not> (0 \<le> n \<and> n \<le> 100)"
    using that by (auto simp: create_lead_def Lead_def opt_ok_def in_range_def)
  from a b show ?thesis by blast
qed

theorem lead_score_bounds_witness:
  "(\<exists>r. create_lead example_checks (Some empty_store) (example_lead\<lparr>lead_score := Some 100\<rparr>) = Inr r)
   \<and> create_lead example_checks (Some empty_store) (example_lead\<lparr>lead_score := Some 150\<rparr>)
       = Inl ValidationError"
  using lead_score_bounds[OF example_lead_created, of 100]
    lead_score_bounds[OF example_lead_created, of 150]
  by simp




text \<open>
  C9, as claimed: a successful create operation returns an object whose single key is
  "id". The handlers name the key "_id".
\<close>

theorem create_response_key_counterexample:
  "(case create_lead example_checks (Some empty_store) example_lead of
      Inr (resp, st') \<Rightarrow> map fst resp = [''_id''] \<and> map fst resp \<noteq> [''id'']
    | Inl e \<Rightarrow> False)"
  by code_simp

text \<open>
  C9, amended: every successful create operation (lead, deal, task, activity) returns an
  object whose single key is "_id", mapped to the newly assigned identifier rendered as a
  string; the document stored last in the collection carries that identifier.
\<close>

theorem create_returns_id:
  "(create_lead chk db lb = Inr (resp, st') \<longrightarrow>
      (\<exists>st i. db = Some st \<and> resp = [(''_id'', VStr i)] \<and> i = hex_str 24 (next_oid st)
             \<and> (last (collections st' ''lead'')) ''_id'' = Some (VOid i)))
   \<and> (create_deal chk db dl = Inr (resp, st') \<longrightarrow>
      (\<exists>st i. db = Some st \<and> resp = [(''_id'', VStr i)] \<and> i = hex_str 24 (next_oid st)
             \<and> (last (collections st' ''deal'')) ''_id'' = Some (VOid i)))
   \<and> (create_task chk db tb = Inr (resp, st') \<longrightarrow>
      (\<exists>st i. db = Some st \<and> resp = [(''_id'', VStr i)] \<and> i = hex_str 24 (next_oid st)
             \<and> (last (collections st' ''task'')) ''_id'' = Some (VOid i)))
   \<and> (create_activity chk db ab = Inr (resp, st') \<longrightarrow>
      (\<exists>st i. db = Some st \<and> resp = [(''_id'', VStr i)] \<and> i = hex_str 24 (next_oid st)
             \<and> (last (collections st' ''activity'')) ''_id'' = Some (VOid i)))"
  unfolding create_lead_def create_deal_def create_task_def create_activity_def
  by (cases db) (auto simp: create_document_None split: sum.splits dest!: create_document_Inr)

theorem create_returns_id_witness:
  "\<exists>st'. create_lead example_checks (Some empty_store) example_lead
            = Inr ([(''_id'', VStr ''000000000000000000000000'')], st')"
proof (cases "create_lead example_checks (Some empty_store) example_lead")
  case (Inl e)
  with example_lead_response show ?thesis by simp
next
  case (Inr p)
  obtain resp st' where p: "p = (resp, st')" by (cases p)
  have n: "hex_str 24 (next_oid empty_store) = ''000000000000000000000000''" by code_simp
  have r: "create_lead example_checks (Some empty_store) example_lead = Inr (resp, st')"
    using Inr p by simp
  have "create_lead example_checks (Some empty_store) example_lead = Inr (resp, st') \<longrightarrow>
      (\<exists>st i. Some empty_store = Some st \<and> resp = [(''_id'', VStr i)]
             \<and> i = hex_str 24 (next_oid st)
             \<and> (last (collections st' ''lead'')) ''_id'' = Some (VOid i))"
    using create_returns_id[of example_checks "Some empty_store" example_lead resp st']
    by (rule conjunct1)
  with r have "resp = [(''_id'', VStr (hex_str 24 (next_oid empty_store)))]" by blast
  with r n show ?thesis by simp
qed

section \<open>Updating entities\<close>

















section \<open>Listing entities\<close>










text \<open>
  C10. For every list operation (leads, deals, tasks, activities), a filter parameter that
  is the empty string gives the same result as the omitted parameter: the filter is dropped
  from the query.
\<close>

theorem empty_filter_dropped:
  "list_leads db (Some []) q limit = list_leads db None q limit
   \<and> list_leads db status (Some []) limit = list_leads db status None limit
   \<and> list_deals db (Some []) q limit = list_deals db None q limit
   \<and> list_deals db stage (Some []) limit = list_deals db stage None limit
   \<and> list_tasks db (Some []) due limit = list_tasks db None due limit
   \<and> list_tasks db owner_id (Some []) limit = list_tasks db owner_id None limit
   \<and> list_activities db (Some []) related_id limit = list_activities db None related_id limit
   \<and> list_activities db related_type (Some []) limit = list_activities db related_type None limit"
  by (simp add: list_leads_def list_deals_def list_tasks_def list_activities_def when_given_def)


end
